theory Spec2Isabelle
  imports Main "HOL-Library.Word"
begin

section \<open>Package errors: sentinels, wrapping, matching\<close>

text \<open>
  The package declares eleven sentinel values with \<^verbatim>\<open>errors.New\<close>. Each is a distinct
  pointer, so a sentinel is equal only to itself. Every other leaf error (a driver error,
  a context error, an error made elsewhere with \<^verbatim>\<open>errors.New\<close>) is a \<open>Foreign\<close> leaf that
  carries its text. \<^verbatim>\<open>fmt.Errorf\<close> with one \<^verbatim>\<open>%w\<close> verb builds a \<open>WrapError\<close>: the
  formatted message and the wrapped error. A nil error is \<open>None\<close> of \<open>error option\<close>.
  The functions of the package take any error value, so the model also has the errors
  the repository does not build itself: a \<open>WrapErrors\<close> wraps several errors at once
  (\<^verbatim>\<open>errors.Join\<close>, \<^verbatim>\<open>fmt.Errorf\<close> with several \<^verbatim>\<open>%w\<close> verbs; its method is
  \<^verbatim>\<open>Unwrap() []error\<close>), and a \<open>Custom\<close> error is a leaf of a type with its own
  \<^verbatim>\<open>Is\<close> method: its text and the targets that method accepts.
\<close>

datatype sentinel =
    Validation | NotFound | AlreadyExists | InvalidInput | BusinessRule
  | Database | Transaction | External | Internal
  | Unauthorized | Forbidden

datatype error =
    Sentinel sentinel
  | Foreign string
  | WrapError string error
  | WrapErrors string "error list"
  | Custom string "error list"

abbreviation ErrValidation :: error where "ErrValidation \<equiv> Sentinel Validation"
abbreviation ErrNotFound :: error where "ErrNotFound \<equiv> Sentinel NotFound"
abbreviation ErrAlreadyExists :: error where "ErrAlreadyExists \<equiv> Sentinel AlreadyExists"
abbreviation ErrInvalidInput :: error where "ErrInvalidInput \<equiv> Sentinel InvalidInput"
abbreviation ErrBusinessRule :: error where "ErrBusinessRule \<equiv> Sentinel BusinessRule"
abbreviation ErrTransaction :: error where "ErrTransaction \<equiv> Sentinel Transaction"
abbreviation ErrExternal :: error where "ErrExternal \<equiv> Sentinel External"
abbreviation ErrInternal :: error where "ErrInternal \<equiv> Sentinel Internal"
abbreviation ErrUnauthorized :: error where "ErrUnauthorized \<equiv> Sentinel Unauthorized"
abbreviation ErrForbidden :: error where "ErrForbidden \<equiv> Sentinel Forbidden"

fun sentinel_text :: "sentinel \<Rightarrow> string" where
  "sentinel_text Validation = ''validation failed''"
| "sentinel_text NotFound = ''resource not found''"
| "sentinel_text AlreadyExists = ''resource already exists''"
| "sentinel_text InvalidInput = ''invalid input''"
| "sentinel_text BusinessRule = ''business rule violation''"
| "sentinel_text Database = ''database error''"
| "sentinel_text Transaction = ''transaction error''"
| "sentinel_text External = ''external service error''"
| "sentinel_text Internal = ''internal error''"
| "sentinel_text Unauthorized = ''unauthorized''"
| "sentinel_text Forbidden = ''forbidden''"

text \<open>
  The method \<^verbatim>\<open>Error()\<close> of an error value, and \<^verbatim>\<open>errors.Unwrap\<close>, which calls the
  method \<^verbatim>\<open>Unwrap() error\<close> only and so returns nil for an error that wraps several.
\<close>

fun Error :: "error \<Rightarrow> string" where
  "Error (Sentinel s) = sentinel_text s"
| "Error (Foreign t) = t"
| "Error (WrapError msg e) = msg"
| "Error (WrapErrors msg es) = msg"
| "Error (Custom t targets) = t"

fun Unwrap :: "error \<Rightarrow> error option" where
  "Unwrap (WrapError msg e) = Some e"
| "Unwrap e = None"

text \<open>
  \<^verbatim>\<open>fmt.Errorf(prefix + "%w", err)\<close>: the message is the prefix followed by the text of
  the wrapped error.
\<close>

definition Errorf_w :: "string \<Rightarrow> error \<Rightarrow> error" where
  "Errorf_w prefix err = WrapError (prefix @ Error err) err"

text \<open>\<^verbatim>\<open>Wrap(err, message)\<close>: nil stays nil, otherwise \<^verbatim>\<open>fmt.Errorf("%s: %w", message, err)\<close>.\<close>

definition Wrap :: "error option \<Rightarrow> string \<Rightarrow> error option" where
  "Wrap err message =
     (case err of None \<Rightarrow> None
      | Some e \<Rightarrow> Some (WrapError (message @ '': '' @ Error e) e))"

text \<open>
  \<^verbatim>\<open>errors.Is\<close> walks the tree of the error: it compares the error with the target, asks
  the \<^verbatim>\<open>Is\<close> method of the error when it has one, and goes on into the error, or into
  each of the errors, that it wraps. With a nil argument it compares the two arguments.
\<close>

fun is_tree :: "error \<Rightarrow> error \<Rightarrow> bool" where
  "is_tree (WrapError msg e) target = (WrapError msg e = target \<or> is_tree e target)"
| "is_tree (WrapErrors msg es) target =
     (WrapErrors msg es = target \<or> list_ex (\<lambda>e. is_tree e target) es)"
| "is_tree (Custom t targets) target = (Custom t targets = target \<or> target \<in> set targets)"
| "is_tree e target = (e = target)"

fun Is :: "error option \<Rightarrow> error option \<Rightarrow> bool" where
  "Is None target = (target = None)"
| "Is (Some e) None = False"
| "Is (Some e) (Some target) = is_tree e target"

section \<open>Mapping an error to an HTTP response\<close>

abbreviation StatusBadRequest :: int where "StatusBadRequest \<equiv> 400"
abbreviation StatusUnauthorized :: int where "StatusUnauthorized \<equiv> 401"
abbreviation StatusForbidden :: int where "StatusForbidden \<equiv> 403"
abbreviation StatusNotFound :: int where "StatusNotFound \<equiv> 404"
abbreviation StatusConflict :: int where "StatusConflict \<equiv> 409"
abbreviation StatusInternalServerError :: int where "StatusInternalServerError \<equiv> 500"

text \<open>
  \<open>classifyError\<close> returns the triple (status, code, message). The branches that call
  \<^verbatim>\<open>err.Error()\<close> are reached only through a successful \<^verbatim>\<open>Is(err, sentinel)\<close>, which
  is false for a nil error: a nil error takes the default branch.
\<close>

fun classifyError :: "error option \<Rightarrow> int \<times> string \<times> string" where
  "classifyError None =
     (StatusInternalServerError, ''INTERNAL_ERROR'', ''An internal error occurred'')"
| "classifyError (Some e) =
     (if Is (Some e) (Some ErrValidation) then
        (StatusBadRequest, ''VALIDATION_ERROR'', Error e)
      else if Is (Some e) (Some ErrNotFound) then
        (StatusNotFound, ''NOT_FOUND'', Error e)
      else if Is (Some e) (Some ErrAlreadyExists) then
        (StatusConflict, ''CONFLICT'', Error e)
      else if Is (Some e) (Some ErrInvalidInput) then
        (StatusBadRequest, ''INVALID_INPUT'', Error e)
      else if Is (Some e) (Some ErrBusinessRule) then
        (StatusBadRequest, ''BUSINESS_RULE_VIOLATION'', Error e)
      else if Is (Some e) (Some ErrUnauthorized) then
        (StatusUnauthorized, ''UNAUTHORIZED'', ''Authentication required'')
      else if Is (Some e) (Some ErrForbidden) then
        (StatusForbidden, ''FORBIDDEN'', ''Access denied'')
      else
        (StatusInternalServerError, ''INTERNAL_ERROR'', ''An internal error occurred''))"





section \<open>Configuration: reading the environment\<close>

text \<open>
  The environment is a partial map from names to values; \<^verbatim>\<open>os.Getenv\<close> returns the
  empty string for a name that is not set. The environment modelled here is the one the
  process has after \<^verbatim>\<open>godotenv.Load()\<close> has run (its error is ignored by \<open>Load\<close>).
\<close>

type_synonym environ = "string \<rightharpoonup> string"

definition Getenv :: "environ \<Rightarrow> string \<Rightarrow> string" where
  "Getenv env key = (case env key of None \<Rightarrow> [] | Some v \<Rightarrow> v)"

text \<open>
  \<^verbatim>\<open>strconv.Atoi\<close> on a 64-bit platform: an optional sign, then one or more decimal digits,
  and the value must fit a signed 64-bit integer; every other string is an error
  (\<open>None\<close>).
\<close>

definition is_digit :: "char \<Rightarrow> bool" where
  "is_digit c = (c \<in> set ''0123456789'')"

definition digit_val :: "char \<Rightarrow> int" where
  "digit_val c = of_char c - 48"

definition digits_val :: "string \<Rightarrow> int" where
  "digits_val s = foldl (\<lambda>n c. n * 10 + digit_val c) 0 s"

definition Atoi :: "string \<Rightarrow> int option" where
  "Atoi s =
     (let neg = (case s of [] \<Rightarrow> False | c # r \<Rightarrow> c = CHR ''-'');
          ds = (case s of [] \<Rightarrow> [] | c # r \<Rightarrow> if c = CHR ''-'' \<or> c = CHR ''+'' then r else s)
      in if ds \<noteq> [] \<and> list_all is_digit ds then
           let n = digits_val ds; v = (if neg then - n else n)
           in if v < - (2 ^ 63) \<or> 2 ^ 63 \<le> v then None else Some v
         else None)"

definition getEnv :: "environ \<Rightarrow> string \<Rightarrow> string \<Rightarrow> string" where
  "getEnv env key defaultValue =
     (let value = Getenv env key in if value \<noteq> [] then value else defaultValue)"

definition getEnvAsInt :: "environ \<Rightarrow> string \<Rightarrow> int \<Rightarrow> int" where
  "getEnvAsInt env key defaultValue =
     (let valueStr = Getenv env key in
      if valueStr = [] then defaultValue
      else case Atoi valueStr of
             None \<Rightarrow> defaultValue
           | Some value \<Rightarrow> value)"

text \<open>
  A \<^verbatim>\<open>time.Duration\<close> is a count of nanoseconds. \<^verbatim>\<open>time.ParseDuration\<close> and
  \<^verbatim>\<open>strings.TrimSpace\<close> belong to the standard library; the functions that call them take
  them as the parameters \<open>parseDuration\<close> (\<open>None\<close> when the string does not parse) and
  \<open>trimSpace\<close>.
\<close>

abbreviation Second :: int where "Second \<equiv> 1000000000"
abbreviation Minute :: int where "Minute \<equiv> 60 * Second"
abbreviation Hour :: int where "Hour \<equiv> 60 * Minute"

definition getEnvAsDuration ::
  "(string \<Rightarrow> int option) \<Rightarrow> environ \<Rightarrow> string \<Rightarrow> int \<Rightarrow> int" where
  "getEnvAsDuration parseDuration env key defaultValue =
     (let valueStr = Getenv env key in
      if valueStr = [] then defaultValue
      else case parseDuration valueStr of
             None \<Rightarrow> defaultValue
           | Some value \<Rightarrow> value)"

text \<open>\<^verbatim>\<open>strings.Split(s, ",")\<close>: the pieces between the commas, one more than the commas.\<close>

fun split_comma :: "string \<Rightarrow> string list" where
  "split_comma [] = [[]]"
| "split_comma (c # cs) =
     (if c = CHR '','' then [] # split_comma cs
      else (case split_comma cs of p # ps \<Rightarrow> (c # p) # ps | [] \<Rightarrow> [[c]]))"

definition getEnvAsSlice ::
  "(string \<Rightarrow> string) \<Rightarrow> environ \<Rightarrow> string \<Rightarrow> string list \<Rightarrow> string list" where
  "getEnvAsSlice trimSpace env key defaultValue =
     (let valueStr = Getenv env key in
      if valueStr = [] then defaultValue
      else map trimSpace (split_comma valueStr))"

section \<open>Configuration: the values and their validation\<close>

record AppConfig =
  Environment :: string
  Port :: int
  LogLevel :: string

record DatabaseConfig =
  Host :: string
  DB_Port :: int
  Name :: string
  User :: string
  Password :: string
  SSLMode :: string
  MaxConnections :: int
  MaxIdleConnections :: int
  ConnectionLifetime :: int

record ServerConfig =
  ReadTimeout :: int
  WriteTimeout :: int
  IdleTimeout :: int
  ShutdownTimeout :: int

record JWTConfig =
  Secret :: string
  Expiry :: int

record CORSConfig =
  AllowedOrigins :: "string list"
  AllowedMethods :: "string list"
  AllowedHeaders :: "string list"

record Config =
  App :: AppConfig
  Database_cfg :: DatabaseConfig
  Server_cfg :: ServerConfig
  JWT :: JWTConfig
  CORS :: CORSConfig

text \<open>The verb \<^verbatim>\<open>%d\<close>: an integer in decimal, with a minus sign when negative.\<close>

fun nat_dec :: "nat \<Rightarrow> string" where
  "nat_dec n =
     (if n < 10 then [char_of (48 + n)]
      else nat_dec (n div 10) @ [char_of (48 + n mod 10)])"

declare nat_dec.simps [simp del]

definition int_dec :: "int \<Rightarrow> string" where
  "int_dec i = (if i < 0 then CHR ''-'' # nat_dec (nat (- i)) else nat_dec (nat i))"

text \<open>\<^verbatim>\<open>strings.Join\<close>.\<close>

fun Join :: "string list \<Rightarrow> string \<Rightarrow> string" where
  "Join [] sep = []"
| "Join [x] sep = x"
| "Join (x # y # ys) sep = x @ sep @ Join (y # ys) sep"

text \<open>The validator collects messages; the model passes the list along.\<close>

type_synonym Validator = "string list"

definition NewValidator :: Validator where
  "NewValidator = []"

definition Validator_Required :: "Validator \<Rightarrow> string \<Rightarrow> string \<Rightarrow> Validator" where
  "Validator_Required v key value = (if value = [] then v @ [key @ '' is required''] else v)"

definition Validator_OneOf :: "Validator \<Rightarrow> string \<Rightarrow> string \<Rightarrow> string list \<Rightarrow> Validator" where
  "Validator_OneOf v key value allowed =
     (if value \<in> set allowed then v
      else v @ [key @ '' must be one of: '' @ Join allowed '', ''])"

definition Validator_Range :: "Validator \<Rightarrow> string \<Rightarrow> int \<Rightarrow> int \<Rightarrow> int \<Rightarrow> Validator" where
  "Validator_Range v key value lo hi =
     (if value < lo \<or> value > hi
      then v @ [key @ '' must be between '' @ int_dec lo @ '' and '' @ int_dec hi]
      else v)"

definition Validator_Min :: "Validator \<Rightarrow> string \<Rightarrow> int \<Rightarrow> int \<Rightarrow> Validator" where
  "Validator_Min v key value lo =
     (if value < lo then v @ [key @ '' must be at least '' @ int_dec lo] else v)"

definition Validator_MinLength :: "Validator \<Rightarrow> string \<Rightarrow> string \<Rightarrow> int \<Rightarrow> Validator" where
  "Validator_MinLength v key value lo =
     (if int (length value) < lo
      then v @ [key @ '' must be at least '' @ int_dec lo @ '' characters'']
      else v)"

definition Validator_Error :: "Validator \<Rightarrow> error option" where
  "Validator_Error v =
     (if length v = 0 then None
      else Some (Foreign (''configuration validation failed:'' @ [CHR 0x0A] @ ''  - ''
                          @ Join v ([CHR 0x0A] @ ''  - ''))))"

definition Validate :: "Config \<Rightarrow> error option" where
  "Validate c =
     (let v = NewValidator;
          v = Validator_Required v ''APP_ENV'' (Environment (App c));
          v = Validator_OneOf v ''APP_ENV'' (Environment (App c)) [''development'', ''staging'', ''production''];
          v = Validator_Range v ''APP_PORT'' (Port (App c)) 1 65535;
          v = Validator_OneOf v ''APP_LOG_LEVEL'' (LogLevel (App c)) [''debug'', ''info'', ''warn'', ''error''];
          v = Validator_Required v ''DB_HOST'' (Host (Database_cfg c));
          v = Validator_Range v ''DB_PORT'' (DB_Port (Database_cfg c)) 1 65535;
          v = Validator_Required v ''DB_NAME'' (Name (Database_cfg c));
          v = Validator_Required v ''DB_USER'' (User (Database_cfg c));
          v = Validator_Required v ''DB_PASSWORD'' (Password (Database_cfg c));
          v = Validator_OneOf v ''DB_SSL_MODE'' (SSLMode (Database_cfg c)) [''disable'', ''require'', ''verify-full''];
          v = Validator_Min v ''DB_MAX_CONNECTIONS'' (MaxConnections (Database_cfg c)) 1;
          v = Validator_Min v ''DB_MAX_IDLE_CONNECTIONS'' (MaxIdleConnections (Database_cfg c)) 1;
          v = (if Environment (App c) = ''production''
               then Validator_MinLength (Validator_Required v ''JWT_SECRET'' (Secret (JWT c))) ''JWT_SECRET'' (Secret (JWT c)) 32
               else v)
      in Validator_Error v)"

definition Load ::
  "(string \<Rightarrow> int option) \<Rightarrow> (string \<Rightarrow> string) \<Rightarrow> environ \<Rightarrow> Config option \<times> error option" where
  "Load parseDuration trimSpace env =
     (let cfg = \<lparr>
            App = \<lparr>
              Environment = getEnv env ''APP_ENV'' ''development'',
              Port = getEnvAsInt env ''APP_PORT'' 8080,
              LogLevel = getEnv env ''APP_LOG_LEVEL'' ''info''\<rparr>,
            Database_cfg = \<lparr>
              Host = getEnv env ''DB_HOST'' ''localhost'',
              DB_Port = getEnvAsInt env ''DB_PORT'' 5432,
              Name = getEnv env ''DB_NAME'' ''logistics_db'',
              User = getEnv env ''DB_USER'' ''postgres'',
              Password = getEnv env ''DB_PASSWORD'' [],
              SSLMode = getEnv env ''DB_SSL_MODE'' ''disable'',
              MaxConnections = getEnvAsInt env ''DB_MAX_CONNECTIONS'' 25,
              MaxIdleConnections = getEnvAsInt env ''DB_MAX_IDLE_CONNECTIONS'' 5,
              ConnectionLifetime =
                getEnvAsDuration parseDuration env ''DB_CONNECTION_LIFETIME'' (5 * Minute)\<rparr>,
            Server_cfg = \<lparr>
              ReadTimeout = getEnvAsDuration parseDuration env ''SERVER_READ_TIMEOUT'' (10 * Second),
              WriteTimeout = getEnvAsDuration parseDuration env ''SERVER_WRITE_TIMEOUT'' (10 * Second),
              IdleTimeout = getEnvAsDuration parseDuration env ''SERVER_IDLE_TIMEOUT'' (120 * Second),
              ShutdownTimeout =
                getEnvAsDuration parseDuration env ''SERVER_SHUTDOWN_TIMEOUT'' (30 * Second)\<rparr>,
            JWT = \<lparr>
              Secret = getEnv env ''JWT_SECRET'' [],
              Expiry = getEnvAsDuration parseDuration env ''JWT_EXPIRY'' (24 * Hour)\<rparr>,
            CORS = \<lparr>
              AllowedOrigins = getEnvAsSlice trimSpace env ''CORS_ALLOWED_ORIGINS'' [''*''],
              AllowedMethods = getEnvAsSlice trimSpace env ''CORS_ALLOWED_METHODS''
                                 [''GET'', ''POST'', ''PUT'', ''DELETE'', ''OPTIONS''],
              AllowedHeaders = getEnvAsSlice trimSpace env ''CORS_ALLOWED_HEADERS''
                                 [''Content-Type'', ''Authorization'']\<rparr>\<rparr>
      in case Validate cfg of
           Some err \<Rightarrow> (None, Some (Errorf_w ''invalid configuration: '' err))
         | None \<Rightarrow> (Some cfg, None))"

text \<open>The connection string of the database configuration.\<close>

definition GetDatabaseURL :: "DatabaseConfig \<Rightarrow> string" where
  "GetDatabaseURL c =
     ''host='' @ Host c @ '' port='' @ int_dec (DB_Port c) @ '' user='' @ User c
     @ '' password='' @ Password c @ '' dbname='' @ Name c @ '' sslmode='' @ SSLMode c"

section \<open>Values, contexts and outcomes\<close>

text \<open>
  A value of type \<^verbatim>\<open>interface{}\<close> is nil, a transaction handle (the only values that
  implement \<^verbatim>\<open>pgx.Tx\<close>), or some other value. A transaction handle is the number the
  driver gave it.
\<close>

type_synonym tx = nat

datatype any = AnyNil | TxValue tx | OtherValue string

text \<open>
  A call returns, or panics with a value, or ends its goroutine with \<^verbatim>\<open>runtime.Goexit\<close>
  (as \<^verbatim>\<open>t.FailNow\<close> does): then the deferred functions run and the goroutine stops
  without a return and without a panic. The value of a panic is the value \<^verbatim>\<open>recover\<close>
  yields for it; since Go 1.21 it is never nil. \<open>recover\<close> in a deferred function yields
  the value of the panic under way, and nil (\<open>None\<close>) when there is none: after a return
  and during a \<^verbatim>\<open>Goexit\<close>.
\<close>

datatype panic_value = PanicValue string

datatype 'a outcome = Returns 'a | Panics panic_value | Goexits

definition recover :: "'a outcome \<Rightarrow> panic_value option" where
  "recover r = (case r of Panics p \<Rightarrow> Some p | Returns v \<Rightarrow> None | Goexits \<Rightarrow> None)"

text \<open>
  Context keys are compared with their type: the unexported type \<^verbatim>\<open>contextKey\<close> of the
  database package, or a key of any other type. A context is the background context or
  a child made by \<^verbatim>\<open>context.WithValue\<close> or \<^verbatim>\<open>context.WithTimeout\<close>; \<open>Value\<close> searches
  from the child towards the root. A context is never nil, as package \<^verbatim>\<open>context\<close>
  requires of its callers.
\<close>

datatype ctx_key = contextKey string | otherKey string

datatype Context =
    Background
  | WithValue Context ctx_key any
  | WithTimeout Context int

definition txKey :: ctx_key where
  "txKey = contextKey ''tx''"

fun Value :: "Context \<Rightarrow> ctx_key \<Rightarrow> any" where
  "Value Background key = AnyNil"
| "Value (WithValue parent k v) key = (if k = key then v else Value parent key)"
| "Value (WithTimeout parent d) key = Value parent key"

text \<open>
  \<open>GetTx\<close>: the checked type assertion \<^verbatim>\<open>ctx.Value(txKey).(pgx.Tx)\<close>; the nil interface
  it returns on failure is \<open>None\<close>.
\<close>

definition GetTx :: "Context \<Rightarrow> tx option" where
  "GetTx ctx = (case Value ctx txKey of TxValue t \<Rightarrow> Some t | _ \<Rightarrow> None)"

section \<open>The connection pool\<close>

text \<open>
  The pool library is outside the repository. Its calls are the fields of \<open>pgxpool\<close>:
  each gives the result the library returns (an error or a value). A pool object holds its
  configuration and whether it has been closed; pool objects live in a heap, a pointer is
  an index into it and \<open>None\<close> is the nil pointer. Pointers are made by \<open>NewWithConfig\<close>
  only.
\<close>

record pool_config =
  ConnString :: string
  MaxConns :: "32 word"
  MinConns :: "32 word"
  MaxConnLifetime :: int
  MaxConnIdleTime :: int
  HealthCheckPeriod :: int

record pool_obj =
  pconfig :: pool_config
  closed :: bool

type_synonym heap = "pool_obj list"

record pgxpool =
  ParseConfig :: "string \<Rightarrow> error + pool_config"
  NewWithConfig_result :: "pool_config \<Rightarrow> error option"
  Ping :: "Context \<Rightarrow> error option"

text \<open>
  The method \<^verbatim>\<open>(*pgxpool.Pool).Close\<close>: it reads a field of its receiver, so a nil
  receiver panics; it releases the connections once, and a later call does nothing.
\<close>

definition Pool_Close :: "nat option \<Rightarrow> heap \<Rightarrow> heap outcome" where
  "Pool_Close p h =
     (case p of
        None \<Rightarrow> Panics (PanicValue ''invalid memory address or nil pointer dereference'')
      | Some a \<Rightarrow>
          if closed (h ! a) then Returns h
          else Returns (h[a := (h ! a)\<lparr>closed := True\<rparr>]))"

text \<open>The method \<^verbatim>\<open>(*pgxpool.Pool).Ping\<close>: a nil receiver panics.\<close>

definition Pool_Ping :: "pgxpool \<Rightarrow> nat option \<Rightarrow> Context \<Rightarrow> error option outcome" where
  "Pool_Ping lib p ctx =
     (case p of
        None \<Rightarrow> Panics (PanicValue ''invalid memory address or nil pointer dereference'')
      | Some a \<Rightarrow> Returns (Ping lib ctx))"

text \<open>\<^verbatim>\<open>pgxpool.NewWithConfig\<close>: an error and a nil pool, or a new open pool.\<close>

definition NewWithConfig ::
  "pgxpool \<Rightarrow> Context \<Rightarrow> pool_config \<Rightarrow> heap \<Rightarrow> (nat option \<times> error option) \<times> heap" where
  "NewWithConfig lib ctx pc h =
     (case NewWithConfig_result lib pc of
        Some err \<Rightarrow> ((None, Some err), h)
      | None \<Rightarrow> ((Some (length h), None), h @ [\<lparr>pconfig = pc, closed = False\<rparr>]))"

text \<open>
  The block of \<open>NewPostgresPool\<close> that sets the pool configuration. The conversion
  \<^verbatim>\<open>int32(n)\<close> keeps the low 32 bits.
\<close>

definition setPoolConfiguration :: "DatabaseConfig \<Rightarrow> pool_config \<Rightarrow> pool_config" where
  "setPoolConfiguration cfg poolConfig =
     poolConfig\<lparr>
       MaxConns := word_of_int (MaxConnections cfg),
       MinConns := word_of_int (MaxIdleConnections cfg),
       MaxConnLifetime := ConnectionLifetime cfg,
       MaxConnIdleTime := 30 * Minute,
       HealthCheckPeriod := 1 * Minute\<rparr>"

text \<open>\<open>NewPostgresPool\<close> returns the pool pointer, the error and the heap.\<close>

definition NewPostgresPool ::
  "pgxpool \<Rightarrow> Context \<Rightarrow> DatabaseConfig \<Rightarrow> heap \<Rightarrow> (nat option \<times> error option) outcome \<times> heap" where
  "NewPostgresPool lib ctx cfg h =
     (let connStr = GetDatabaseURL cfg in
      case ParseConfig lib connStr of
        Inl err \<Rightarrow> (Returns (None, Some (Errorf_w ''unable to parse database config: '' err)), h)
      | Inr poolConfig0 \<Rightarrow>
          let poolConfig = setPoolConfiguration cfg poolConfig0
          in case NewWithConfig lib ctx poolConfig h of
               ((pool, Some err), h1) \<Rightarrow>
                 (Returns (None, Some (Errorf_w ''unable to create connection pool: '' err)), h1)
             | ((pool, None), h1) \<Rightarrow>
                 (case Pool_Ping lib pool ctx of
                    Panics v \<Rightarrow> (Panics v, h1)
                  | Goexits \<Rightarrow> (Goexits, h1)
                  | Returns (Some err) \<Rightarrow>
                      (case Pool_Close pool h1 of
                         Panics v \<Rightarrow> (Panics v, h1)
                       | Goexits \<Rightarrow> (Goexits, h1)
                       | Returns h2 \<Rightarrow>
                           (Returns (None, Some (Errorf_w ''unable to ping database: '' err)), h2))
                  | Returns None \<Rightarrow> (Returns (pool, None), h1)))"

text \<open>\<open>Close\<close>: the nil test guards the method call.\<close>

definition Close :: "nat option \<Rightarrow> heap \<Rightarrow> heap outcome" where
  "Close pool h = (if pool \<noteq> None then Pool_Close pool h else Returns h)"

section \<open>The transaction manager\<close>

text \<open>
  The unit of work is a function of the derived context; it returns a result and an
  error, or panics, or ends the goroutine with \<^verbatim>\<open>runtime.Goexit\<close>. The trace records,
  in order, the calls \<open>WithTransaction\<close> makes.
\<close>

datatype fn_outcome = FnReturns any "error option" | FnPanics panic_value | FnGoexits

text \<open>
  The driver calls the manager makes, each with the result the driver returns:
  \<^verbatim>\<open>pool.Begin(ctx)\<close>, \<^verbatim>\<open>tx.Commit(ctx)\<close> and \<^verbatim>\<open>tx.Rollback(ctx)\<close>. The calls are
  modelled by their declared results, an error or none; the only exits without a return
  in the model are the panic and the \<^verbatim>\<open>Goexit\<close> of the unit of work.
\<close>

record pgx =
  Begin :: "Context \<Rightarrow> error + tx"
  Commit :: "tx \<Rightarrow> Context \<Rightarrow> error option"
  Rollback :: "tx \<Rightarrow> Context \<Rightarrow> error option"

datatype event =
    BeginEv Context
  | CallEv Context
  | CommitEv tx
  | RollbackEv tx

text \<open>
  The body of \<open>WithTransaction\<close> after a successful begin, up to its return statement
  or to the panic or the \<^verbatim>\<open>Goexit\<close> of the unit of work.
\<close>

definition WithTransaction_body ::
  "pgx \<Rightarrow> Context \<Rightarrow> tx \<Rightarrow> (Context \<Rightarrow> fn_outcome) \<Rightarrow> event list \<times> (any \<times> error option) outcome" where
  "WithTransaction_body lib ctx t fn =
     (let txCtx = WithValue ctx txKey (TxValue t) in
      case fn txCtx of
        FnPanics p \<Rightarrow> ([CallEv txCtx], Panics p)
      | FnGoexits \<Rightarrow> ([CallEv txCtx], Goexits)
      | FnReturns result (Some err) \<Rightarrow>
          (case Rollback lib t ctx of
             Some rbErr \<Rightarrow>
               ([CallEv txCtx, RollbackEv t],
                Returns (AnyNil,
                  Some (WrapError (''tx error: '' @ Error err @ '', rollback error: '' @ Error rbErr) err)))
           | None \<Rightarrow> ([CallEv txCtx, RollbackEv t], Returns (AnyNil, Some err)))
      | FnReturns result None \<Rightarrow>
          (case Commit lib t ctx of
             Some err \<Rightarrow>
               ([CallEv txCtx, CommitEv t],
                Returns (AnyNil, Some (Errorf_w ''failed to commit transaction: '' err)))
           | None \<Rightarrow> ([CallEv txCtx, CommitEv t], Returns (result, None))))"

text \<open>
  The deferred function runs however the body ended. It tests \<^verbatim>\<open>recover() != nil\<close>:
  when \<^verbatim>\<open>recover\<close> yields a value, the transaction is rolled back (the result of the
  rollback is dropped) and the panic is raised again with that value; when it yields nil
  the deferred function does nothing, and the body's return, or its \<^verbatim>\<open>Goexit\<close>, goes on.
\<close>

definition WithTransaction_deferred ::
  "tx \<Rightarrow> event list \<times> (any \<times> error option) outcome \<Rightarrow> event list \<times> (any \<times> error option) outcome" where
  "WithTransaction_deferred t r =
     (case recover (snd r) of
        Some p \<Rightarrow> (fst r @ [RollbackEv t], Panics p)
      | None \<Rightarrow> r)"

definition WithTransaction ::
  "pgx \<Rightarrow> Context \<Rightarrow> (Context \<Rightarrow> fn_outcome) \<Rightarrow> event list \<times> (any \<times> error option) outcome" where
  "WithTransaction lib ctx fn =
     (case Begin lib ctx of
        Inl err \<Rightarrow>
          ([BeginEv ctx], Returns (AnyNil, Some (Errorf_w ''failed to begin transaction: '' err)))
      | Inr t \<Rightarrow>
          (case WithTransaction_deferred t (WithTransaction_body lib ctx t fn) of
             (tr, out) \<Rightarrow> (BeginEv ctx # tr, out)))"

section \<open>The HTTP server\<close>

text \<open>
  \<open>Start\<close> launches \<^verbatim>\<open>ListenAndServe\<close> in a goroutine and blocks in a \<^verbatim>\<open>select\<close> on
  two channels. The model takes the case that the \<^verbatim>\<open>select\<close> runs as an input: the error
  \<^verbatim>\<open>ListenAndServe\<close> sent (never nil), or the signal received. The results of
  \<^verbatim>\<open>httpServer.Shutdown\<close> and \<^verbatim>\<open>httpServer.Close\<close> are inputs too: \<open>Shutdown\<close> returns
  the error of its context when the deadline passes before the connections are idle.
  The trace records the calls of the main flow in order.
\<close>

datatype select_case = ServerErrors error | ShutdownSignal string

record http_lib =
  Shutdown :: "Context \<Rightarrow> error option"
  Server_Close :: "error option"

record http_Server =
  Addr :: string
  Server_ReadTimeout :: int
  Server_WriteTimeout :: int
  Server_IdleTimeout :: int

record Server =
  httpServer :: http_Server
  config :: ServerConfig

datatype server_event =
    LogInfo string "(string \<times> string) list"
  | LogError string error
  | ShutdownEv Context
  | CloseEv

definition NewServer :: "ServerConfig \<Rightarrow> Server" where
  "NewServer cfg =
     \<lparr>httpServer = \<lparr>Addr = [], Server_ReadTimeout = ReadTimeout cfg,
                     Server_WriteTimeout = WriteTimeout cfg,
                     Server_IdleTimeout = IdleTimeout cfg\<rparr>,
      config = cfg\<rparr>"

definition Start ::
  "http_lib \<Rightarrow> Server \<Rightarrow> int \<Rightarrow> select_case \<Rightarrow> Server \<times> server_event list \<times> error option" where
  "Start lib s port sel =
     (let s1 = s\<lparr>httpServer := (httpServer s)\<lparr>Addr := '':'' @ int_dec port\<rparr>\<rparr> in
      case sel of
        ServerErrors err \<Rightarrow> (s1, [], Some (Errorf_w ''server error: '' err))
      | ShutdownSignal sig \<Rightarrow>
          let ev0 = LogInfo ''shutdown signal received'' [(''signal'', sig)];
              ctx = WithTimeout Background (ShutdownTimeout (config s1))
          in case Shutdown lib ctx of
               Some err \<Rightarrow>
                 (case Server_Close lib of
                    Some closeErr \<Rightarrow>
                      (s1, [ev0, ShutdownEv ctx, LogError ''graceful shutdown failed'' err, CloseEv],
                       Some (Errorf_w ''force close error: '' closeErr))
                  | None \<Rightarrow>
                      (s1, [ev0, ShutdownEv ctx, LogError ''graceful shutdown failed'' err, CloseEv],
                       Some (Errorf_w ''graceful shutdown error: '' err)))
             | None \<Rightarrow>
                 (s1, [ev0, ShutdownEv ctx, LogInfo ''server stopped gracefully'' []], None))"

section \<open>Vocabulary of the properties\<close>

text \<open>
  The groups of sentinels as the package declares them: domain errors, infrastructure
  errors and auth errors. An error \<open>matches\<close> a sentinel when \<open>Is\<close> finds the sentinel in
  its tree; it is of the infrastructure kind when it matches a sentinel of that group.
\<close>

definition domain_sentinels :: "sentinel list" where
  "domain_sentinels = [Validation, NotFound, AlreadyExists, InvalidInput, BusinessRule]"

definition infrastructure_sentinels :: "sentinel list" where
  "infrastructure_sentinels = [Database, Transaction, External, Internal]"

definition auth_sentinels :: "sentinel list" where
  "auth_sentinels = [Unauthorized, Forbidden]"

definition matches :: "error option \<Rightarrow> sentinel \<Rightarrow> bool" where
  "matches err s = Is err (Some (Sentinel s))"

definition matches_any :: "error option \<Rightarrow> sentinel list \<Rightarrow> bool" where
  "matches_any err ss = list_ex (matches err) ss"

definition isInfrastructureKind :: "error option \<Rightarrow> bool" where
  "isInfrastructureKind err = matches_any err infrastructure_sentinels"


definition internal_triple :: "int \<times> string \<times> string" where
  "internal_triple = (500, ''INTERNAL_ERROR'', ''An internal error occurred'')"

text \<open>The context \<open>Start\<close> hands to \<^verbatim>\<open>Shutdown\<close>.\<close>

definition shutdownCtx :: "Server \<Rightarrow> Context" where
  "shutdownCtx s = WithTimeout Background (ShutdownTimeout (config s))"

text \<open>The names \<open>Load\<close> reads, by the helper that reads them.\<close>

definition string_keys :: "string list" where
  "string_keys = [''APP_ENV'', ''APP_LOG_LEVEL'', ''DB_HOST'', ''DB_NAME'', ''DB_USER'',
     ''DB_PASSWORD'', ''DB_SSL_MODE'', ''JWT_SECRET'']"

definition int_keys :: "string list" where
  "int_keys = [''APP_PORT'', ''DB_PORT'', ''DB_MAX_CONNECTIONS'', ''DB_MAX_IDLE_CONNECTIONS'']"

definition duration_keys :: "string list" where
  "duration_keys = [''DB_CONNECTION_LIFETIME'', ''SERVER_READ_TIMEOUT'', ''SERVER_WRITE_TIMEOUT'',
     ''SERVER_IDLE_TIMEOUT'', ''SERVER_SHUTDOWN_TIMEOUT'', ''JWT_EXPIRY'']"

definition slice_keys :: "string list" where
  "slice_keys = [''CORS_ALLOWED_ORIGINS'', ''CORS_ALLOWED_METHODS'', ''CORS_ALLOWED_HEADERS'']"

section \<open>Sample inputs\<close>

text \<open>
  Libraries that answer every call with a fixed result, units of work, a database
  configuration, a server and an environment, for the concrete instances below.
\<close>


definition const_pgx :: "error + tx \<Rightarrow> error option \<Rightarrow> error option \<Rightarrow> pgx" where
  "const_pgx b c r = \<lparr>Begin = (\<lambda>ctx. b), Commit = (\<lambda>t ctx. c), Rollback = (\<lambda>t ctx. r)\<rparr>"

definition const_fn :: "fn_outcome \<Rightarrow> Context \<Rightarrow> fn_outcome" where
  "const_fn out ctx = out"

definition fn_reads_tx :: "Context \<Rightarrow> fn_outcome" where
  "fn_reads_tx ctx = FnReturns (case GetTx ctx of None \<Rightarrow> AnyNil | Some t \<Rightarrow> TxValue t) None"

definition default_pool_config :: "string \<Rightarrow> pool_config" where
  "default_pool_config connStr =
     \<lparr>ConnString = connStr, MaxConns = 4, MinConns = 0, MaxConnLifetime = Hour,
      MaxConnIdleTime = 30 * Minute, HealthCheckPeriod = Minute\<rparr>"

definition const_pgxpool :: "error option \<Rightarrow> error option \<Rightarrow> error option \<Rightarrow> pgxpool" where
  "const_pgxpool parseErr newErr pingErr =
     \<lparr>ParseConfig = (\<lambda>connStr. case parseErr of Some e \<Rightarrow> Inl e
                                   | None \<Rightarrow> Inr (default_pool_config connStr)),
      NewWithConfig_result = (\<lambda>pc. newErr),
      Ping = (\<lambda>ctx. pingErr)\<rparr>"

definition example_db_config :: DatabaseConfig where
  "example_db_config =
     \<lparr>Host = ''localhost'', DB_Port = 5432, Name = ''logistics_db'', User = ''postgres'',
      Password = ''secret'', SSLMode = ''disable'', MaxConnections = 25,
      MaxIdleConnections = 5, ConnectionLifetime = 5 * Minute\<rparr>"

definition const_http :: "error option \<Rightarrow> error option \<Rightarrow> http_lib" where
  "const_http shutdownErr closeErr = \<lparr>Shutdown = (\<lambda>ctx. shutdownErr), Server_Close = closeErr\<rparr>"

definition example_server :: Server where
  "example_server =
     NewServer \<lparr>ReadTimeout = 10 * Second, WriteTimeout = 10 * Second,
                IdleTimeout = 120 * Second, ShutdownTimeout = 30 * Second\<rparr>"

definition DeadlineExceeded :: error where
  "DeadlineExceeded = Foreign ''context deadline exceeded''"

definition example_parseDuration :: "string \<Rightarrow> int option" where
  "example_parseDuration s =
     (if s = ''30s'' then Some (30 * Second)
      else if s = ''5m'' then Some (5 * Minute)
      else None)"

definition example_trimSpace :: "string \<Rightarrow> string" where
  "example_trimSpace s =
     rev (dropWhile (\<lambda>c. c = CHR '' '') (rev (dropWhile (\<lambda>c. c = CHR '' '') s)))"

definition example_env :: environ where
  "example_env = [''DB_PASSWORD'' \<mapsto> ''secret'']"

section \<open>The transaction manager: one begin, one unit of work, one end\<close>

text \<open>The result of \<open>WithTransaction\<close> along each of its seven paths.\<close>

lemma WithTransaction_begin_failed:
  "Begin lib ctx = Inl err \<Longrightarrow>
   WithTransaction lib ctx fn =
     ([BeginEv ctx], Returns (AnyNil, Some (Errorf_w ''failed to begin transaction: '' err)))"
  by (simp add: WithTransaction_def)

lemma WithTransaction_fn_panics:
  "Begin lib ctx = Inr t \<Longrightarrow> fn (WithValue ctx txKey (TxValue t)) = FnPanics p \<Longrightarrow>
   WithTransaction lib ctx fn =
     ([BeginEv ctx, CallEv (WithValue ctx txKey (TxValue t)), RollbackEv t], Panics p)"
  by (simp add: WithTransaction_def WithTransaction_deferred_def WithTransaction_body_def
      recover_def)

lemma WithTransaction_fn_goexits:
  "Begin lib ctx = Inr t \<Longrightarrow> fn (WithValue ctx txKey (TxValue t)) = FnGoexits \<Longrightarrow>
   WithTransaction lib ctx fn =
     ([BeginEv ctx, CallEv (WithValue ctx txKey (TxValue t))], Goexits)"
  by (simp add: WithTransaction_def WithTransaction_deferred_def WithTransaction_body_def
      recover_def)

lemma WithTransaction_fn_error_rollback_ok:
  "Begin lib ctx = Inr t \<Longrightarrow> fn (WithValue ctx txKey (TxValue t)) = FnReturns r (Some e) \<Longrightarrow>
   Rollback lib t ctx = None \<Longrightarrow>
   WithTransaction lib ctx fn =
     ([BeginEv ctx, CallEv (WithValue ctx txKey (TxValue t)), RollbackEv t],
      Returns (AnyNil, Some e))"
  by (simp add: WithTransaction_def WithTransaction_deferred_def WithTransaction_body_def
      recover_def)

lemma WithTransaction_fn_error_rollback_failed:
  "Begin lib ctx = Inr t \<Longrightarrow> fn (WithValue ctx txKey (TxValue t)) = FnReturns r (Some e) \<Longrightarrow>
   Rollback lib t ctx = Some rbErr \<Longrightarrow>
   WithTransaction lib ctx fn =
     ([BeginEv ctx, CallEv (WithValue ctx txKey (TxValue t)), RollbackEv t],
      Returns (AnyNil,
        Some (WrapError (''tx error: '' @ Error e @ '', rollback error: '' @ Error rbErr) e)))"
  by (simp add: WithTransaction_def WithTransaction_deferred_def WithTransaction_body_def
      recover_def)

lemma WithTransaction_commit_ok:
  "Begin lib ctx = Inr t \<Longrightarrow> fn (WithValue ctx txKey (TxValue t)) = FnReturns r None \<Longrightarrow>
   Commit lib t ctx = None \<Longrightarrow>
   WithTransaction lib ctx fn =
     ([BeginEv ctx, CallEv (WithValue ctx txKey (TxValue t)), CommitEv t], Returns (r, None))"
  by (simp add: WithTransaction_def WithTransaction_deferred_def WithTransaction_body_def
      recover_def)

lemma WithTransaction_commit_failed:
  "Begin lib ctx = Inr t \<Longrightarrow> fn (WithValue ctx txKey (TxValue t)) = FnReturns r None \<Longrightarrow>
   Commit lib t ctx = Some ce \<Longrightarrow>
   WithTransaction lib ctx fn =
     ([BeginEv ctx, CallEv (WithValue ctx txKey (TxValue t)), CommitEv t],
      Returns (AnyNil, Some (Errorf_w ''failed to commit transaction: '' ce)))"
  by (simp add: WithTransaction_def WithTransaction_deferred_def WithTransaction_body_def
      recover_def)

text \<open>
  When the unit of work returns or panics after a successful begin, whatever it and
  the driver do, the trace has three entries: the begin, the call of the unit of work,
  and a commit or a rollback.
\<close>

lemma WithTransaction_trace_shape:
  assumes b: "Begin lib ctx = Inr t"
    and g: "fn (WithValue ctx txKey (TxValue t)) \<noteq> FnGoexits"
  shows "\<exists>x out. WithTransaction lib ctx fn =
                 ([BeginEv ctx, CallEv (WithValue ctx txKey (TxValue t)), x], out)
               \<and> (x = CommitEv t \<or> x = RollbackEv t)"
proof (cases "fn (WithValue ctx txKey (TxValue t))")
  case FnGoexits
  with g show ?thesis by simp
next
  case (FnPanics p)
  from b FnPanics show ?thesis
    by (simp add: WithTransaction_fn_panics [where fn = fn])
next
  case (FnReturns r err)
  show ?thesis
  proof (cases err)
    case None
    note ok = FnReturns [unfolded None]
    show ?thesis
    proof (cases "Commit lib t ctx")
      case None
      from b ok None show ?thesis
        by (simp add: WithTransaction_commit_ok [where fn = fn])
    next
      case (Some ce)
      from b ok Some show ?thesis
        by (simp add: WithTransaction_commit_failed [where fn = fn])
    qed
  next
    case (Some e)
    note failed = FnReturns [unfolded Some]
    show ?thesis
    proof (cases "Rollback lib t ctx")
      case None
      from b failed None show ?thesis
        by (simp add: WithTransaction_fn_error_rollback_ok [where fn = fn])
    next
      case (Some rbErr)
      from b failed Some show ?thesis
        by (simp add: WithTransaction_fn_error_rollback_failed [where fn = fn])
    qed
  qed
qed

text \<open>The only context the unit of work is called with is the derived one.\<close>

lemma WithTransaction_calls:
  assumes b: "Begin lib ctx = Inr t"
    and m: "CallEv c \<in> set (fst (WithTransaction lib ctx fn))"
  shows "c = WithValue ctx txKey (TxValue t)"
proof (cases "fn (WithValue ctx txKey (TxValue t)) = FnGoexits")
  case True
  with b m show ?thesis
    by (simp add: WithTransaction_fn_goexits [where fn = fn])
next
  case False
  from WithTransaction_trace_shape [of lib ctx t fn] b False obtain x out where
    "WithTransaction lib ctx fn = ([BeginEv ctx, CallEv (WithValue ctx txKey (TxValue t)), x], out)"
    and "x = CommitEv t \<or> x = RollbackEv t" by blast
  with m show ?thesis by auto
qed

text \<open>
  C1, as stated, fails: a unit of work that ends its goroutine with \<^verbatim>\<open>runtime.Goexit\<close>
  after a successful begin makes the deferred function run with a nil \<^verbatim>\<open>recover()\<close>,
  so the trace is the begin and the call only: no commit, no rollback, and the
  transaction stays open.
\<close>

theorem WithTransaction_goexit_counterexample:
  "WithTransaction (const_pgx (Inr 7) None None) Background (const_fn FnGoexits) =
     ([BeginEv Background, CallEv (WithValue Background txKey (TxValue 7))], Goexits)
   \<and> CommitEv 7 \<notin> set (fst (WithTransaction (const_pgx (Inr 7) None None) Background
                               (const_fn FnGoexits)))
   \<and> RollbackEv 7 \<notin> set (fst (WithTransaction (const_pgx (Inr 7) None None) Background
                                 (const_fn FnGoexits)))"
  by (simp add: const_pgx_def const_fn_def WithTransaction_def WithTransaction_deferred_def
      WithTransaction_body_def recover_def)

text \<open>
  C1, amended. When begin succeeds and the unit of work returns or panics, the trace of
  \<open>WithTransaction\<close> is the begin, then the call of the unit of work, then exactly one
  commit or rollback, and nothing else: no such path returns or panics with the
  transaction open. When the unit of work panics the last entry is the rollback and the
  panic is raised again with the same value. When the unit of work ends the goroutine
  with \<^verbatim>\<open>runtime.Goexit\<close>, the trace is the begin and the call only: the deferred
  function rolls back on a panic only. When begin fails, \<open>WithTransaction\<close> returns the
  wrapped error at once: the unit of work is not called and there is no commit and no
  rollback.
\<close>

theorem WithTransaction_exactly_one_end:
  "(Begin lib ctx = Inr t \<and> fn (WithValue ctx txKey (TxValue t)) \<noteq> FnGoexits \<longrightarrow>
      (\<exists>x out. WithTransaction lib ctx fn =
                 ([BeginEv ctx, CallEv (WithValue ctx txKey (TxValue t)), x], out)
               \<and> (x = CommitEv t \<or> x = RollbackEv t)))
   \<and> (Begin lib ctx = Inr t \<and> fn (WithValue ctx txKey (TxValue t)) = FnPanics p \<longrightarrow>
        WithTransaction lib ctx fn =
          ([BeginEv ctx, CallEv (WithValue ctx txKey (TxValue t)), RollbackEv t], Panics p))
   \<and> (Begin lib ctx = Inr t \<and> fn (WithValue ctx txKey (TxValue t)) = FnGoexits \<longrightarrow>
        WithTransaction lib ctx fn =
          ([BeginEv ctx, CallEv (WithValue ctx txKey (TxValue t))], Goexits))
   \<and> (Begin lib ctx = Inl err \<longrightarrow>
        WithTransaction lib ctx fn =
          ([BeginEv ctx], Returns (AnyNil, Some (Errorf_w ''failed to begin transaction: '' err))))"
proof (intro conjI impI)
  assume "Begin lib ctx = Inr t \<and> fn (WithValue ctx txKey (TxValue t)) \<noteq> FnGoexits"
  then show "\<exists>x out. WithTransaction lib ctx fn =
                 ([BeginEv ctx, CallEv (WithValue ctx txKey (TxValue t)), x], out)
               \<and> (x = CommitEv t \<or> x = RollbackEv t)"
    using WithTransaction_trace_shape [of lib ctx t fn] by simp
next
  assume "Begin lib ctx = Inr t \<and> fn (WithValue ctx txKey (TxValue t)) = FnPanics p"
  then show "WithTransaction lib ctx fn =
          ([BeginEv ctx, CallEv (WithValue ctx txKey (TxValue t)), RollbackEv t], Panics p)"
    by (simp add: WithTransaction_fn_panics [where fn = fn])
next
  assume "Begin lib ctx = Inr t \<and> fn (WithValue ctx txKey (TxValue t)) = FnGoexits"
  then show "WithTransaction lib ctx fn =
          ([BeginEv ctx, CallEv (WithValue ctx txKey (TxValue t))], Goexits)"
    by (simp add: WithTransaction_fn_goexits [where fn = fn])
next
  assume "Begin lib ctx = Inl err"
  then show "WithTransaction lib ctx fn =
          ([BeginEv ctx], Returns (AnyNil, Some (Errorf_w ''failed to begin transaction: '' err)))"
    by (rule WithTransaction_begin_failed)
qed

theorem WithTransaction_exactly_one_end_witness:
  "WithTransaction (const_pgx (Inr 7) None None) Background (const_fn (FnPanics (PanicValue ''boom''))) =
     ([BeginEv Background, CallEv (WithValue Background txKey (TxValue 7)), RollbackEv 7],
      Panics (PanicValue ''boom''))
   \<and> WithTransaction (const_pgx (Inr 7) None None) Background
        (const_fn (FnReturns (OtherValue ''row'') None)) =
     ([BeginEv Background, CallEv (WithValue Background txKey (TxValue 7)), CommitEv 7],
      Returns (OtherValue ''row'', None))
   \<and> WithTransaction (const_pgx (Inr 7) None None) Background (const_fn FnGoexits) =
     ([BeginEv Background, CallEv (WithValue Background txKey (TxValue 7))], Goexits)
   \<and> WithTransaction (const_pgx (Inl (Foreign ''pool closed'')) None None) Background
        (const_fn (FnPanics (PanicValue ''boom''))) =
     ([BeginEv Background],
      Returns (AnyNil, Some (WrapError ''failed to begin transaction: pool closed'' (Foreign ''pool closed''))))"
  using WithTransaction_exactly_one_end [of "const_pgx (Inr 7) None None" Background 7
      "const_fn (FnPanics (PanicValue ''boom''))" "PanicValue ''boom''"]
    WithTransaction_exactly_one_end [of "const_pgx (Inr 7) None None" Background 7
      "const_fn (FnReturns (OtherValue ''row'') None)" "PanicValue ''boom''"]
    WithTransaction_exactly_one_end [of "const_pgx (Inr 7) None None" Background 7
      "const_fn FnGoexits" "PanicValue ''boom''"]
    WithTransaction_exactly_one_end [of "const_pgx (Inl (Foreign ''pool closed'')) None None" Background 7
      "const_fn (FnPanics (PanicValue ''boom''))" "PanicValue ''boom''" "Foreign ''pool closed''"]
  by (simp add: const_pgx_def const_fn_def Errorf_w_def WithTransaction_def
      WithTransaction_deferred_def WithTransaction_body_def recover_def)

text \<open>
  C2. When the unit of work returns an error, the trace holds exactly one rollback (and
  no commit). If the rollback succeeds, \<open>WithTransaction\<close> returns a nil result and the
  very error of the unit of work. If the rollback fails, it returns a nil result and a
  combined error: it wraps the error of the unit of work (so \<open>Unwrap\<close> and \<open>Is\<close> find
  it) and its text holds the text of both errors.
\<close>

theorem WithTransaction_rollback_on_error:
  "Begin lib ctx = Inr t \<and> fn (WithValue ctx txKey (TxValue t)) = FnReturns r (Some e) \<longrightarrow>
     fst (WithTransaction lib ctx fn) =
       [BeginEv ctx, CallEv (WithValue ctx txKey (TxValue t)), RollbackEv t]
     \<and> (Rollback lib t ctx = None \<longrightarrow>
          snd (WithTransaction lib ctx fn) = Returns (AnyNil, Some e))
     \<and> (Rollback lib t ctx = Some rbErr \<longrightarrow>
          (\<exists>c. snd (WithTransaction lib ctx fn) = Returns (AnyNil, Some c)
             \<and> Unwrap c = Some e \<and> Is (Some c) (Some e)
             \<and> Error c = ''tx error: '' @ Error e @ '', rollback error: '' @ Error rbErr))"
proof (intro impI, elim conjE)
  assume b: "Begin lib ctx = Inr t"
    and f: "fn (WithValue ctx txKey (TxValue t)) = FnReturns r (Some e)"
  have refl_chain: "is_tree e e" by (cases e) simp_all
  show "fst (WithTransaction lib ctx fn) =
       [BeginEv ctx, CallEv (WithValue ctx txKey (TxValue t)), RollbackEv t]
     \<and> (Rollback lib t ctx = None \<longrightarrow>
          snd (WithTransaction lib ctx fn) = Returns (AnyNil, Some e))
     \<and> (Rollback lib t ctx = Some rbErr \<longrightarrow>
          (\<exists>c. snd (WithTransaction lib ctx fn) = Returns (AnyNil, Some c)
             \<and> Unwrap c = Some e \<and> Is (Some c) (Some e)
             \<and> Error c = ''tx error: '' @ Error e @ '', rollback error: '' @ Error rbErr))"
  proof (cases "Rollback lib t ctx")
    case None
    with b f show ?thesis
      by (simp add: WithTransaction_fn_error_rollback_ok [where fn = fn])
  next
    case (Some x)
    with b f refl_chain show ?thesis
      by (simp add: WithTransaction_fn_error_rollback_failed [where fn = fn])
  qed
qed

theorem WithTransaction_rollback_on_error_witness:
  "WithTransaction (const_pgx (Inr 7) None None) Background
       (const_fn (FnReturns (OtherValue ''partial'') (Some ErrNotFound))) =
     ([BeginEv Background, CallEv (WithValue Background txKey (TxValue 7)), RollbackEv 7],
      Returns (AnyNil, Some ErrNotFound))
   \<and> WithTransaction (const_pgx (Inr 7) None (Some (Foreign ''conn reset''))) Background
       (const_fn (FnReturns (OtherValue ''partial'') (Some ErrNotFound))) =
     ([BeginEv Background, CallEv (WithValue Background txKey (TxValue 7)), RollbackEv 7],
      Returns (AnyNil,
        Some (WrapError ''tx error: resource not found, rollback error: conn reset'' ErrNotFound)))"
  using WithTransaction_rollback_on_error [of "const_pgx (Inr 7) None None" Background 7
      "const_fn (FnReturns (OtherValue ''partial'') (Some ErrNotFound))" "OtherValue ''partial''"
      ErrNotFound "Foreign ''conn reset''"]
    WithTransaction_rollback_on_error [of "const_pgx (Inr 7) None (Some (Foreign ''conn reset''))"
      Background 7
      "const_fn (FnReturns (OtherValue ''partial'') (Some ErrNotFound))" "OtherValue ''partial''"
      ErrNotFound "Foreign ''conn reset''"]
  by (simp add: const_pgx_def const_fn_def WithTransaction_def WithTransaction_deferred_def
      WithTransaction_body_def recover_def txKey_def)

section \<open>The kind of the errors the database layer returns\<close>

text \<open>Wrapping adds no sentinel: a wrapper matches the sentinels its cause matches.\<close>

lemma matches_WrapError: "matches (Some (WrapError m e)) s = matches (Some e) s"
  by (simp add: matches_def)

lemma matches_Errorf_w: "matches (Some (Errorf_w p e)) s = matches (Some e) s"
  by (simp add: matches_def Errorf_w_def)

lemma matches_any_Errorf_w: "matches_any (Some (Errorf_w p e)) ss = matches_any (Some e) ss"
  by (simp add: matches_any_def matches_Errorf_w list_ex_iff)

lemma classifyError_unmatched:
  "\<not> matches_any err (domain_sentinels @ auth_sentinels) \<Longrightarrow> classifyError err = internal_triple"
  by (cases err)
     (simp_all add: matches_any_def matches_def domain_sentinels_def auth_sentinels_def
        internal_triple_def)

text \<open>
  C3, as stated, fails: with a unit of work that succeeds and a commit that fails with a
  plain driver error, \<open>WithTransaction\<close> returns a nil result and an error that matches
  none of the infrastructure sentinels (\<open>ErrDatabase\<close>, \<open>ErrTransaction\<close>,
  \<open>ErrExternal\<close>, \<open>ErrInternal\<close>).
\<close>

theorem WithTransaction_commit_failure_counterexample:
  "snd (WithTransaction (const_pgx (Inr 7) (Some (Foreign ''conn reset'')) None) Background
         (const_fn (FnReturns (OtherValue ''ok'') None))) =
     Returns (AnyNil, Some (WrapError ''failed to commit transaction: conn reset'' (Foreign ''conn reset'')))
   \<and> \<not> isInfrastructureKind
         (Some (WrapError ''failed to commit transaction: conn reset'' (Foreign ''conn reset'')))"
  by (simp add: const_pgx_def const_fn_def WithTransaction_def WithTransaction_deferred_def
      WithTransaction_body_def recover_def Errorf_w_def isInfrastructureKind_def matches_any_def
      matches_def infrastructure_sentinels_def)

text \<open>
  C3, amended. When the unit of work returns successfully and the commit fails,
  \<open>WithTransaction\<close> returns a nil result, discarding the result of the unit of work,
  and a non-nil error that wraps the commit error under the prefix
  \<^verbatim>\<open>failed to commit transaction: \<close>. The wrapper carries no sentinel of its own: it
  matches a sentinel exactly when the commit error does, so it is of the infrastructure
  kind only if the commit error already is. When the commit error matches no domain and
  no auth sentinel, \<open>classifyError\<close> gives the wrapper the status 500 with the code
  \<^verbatim>\<open>INTERNAL_ERROR\<close> and the fixed message.
\<close>

theorem WithTransaction_commit_failure:
  "Begin lib ctx = Inr t \<and> fn (WithValue ctx txKey (TxValue t)) = FnReturns r None
     \<and> Commit lib t ctx = Some ce \<longrightarrow>
     snd (WithTransaction lib ctx fn) =
       Returns (AnyNil, Some (WrapError (''failed to commit transaction: '' @ Error ce) ce))
     \<and> matches (Some (WrapError (''failed to commit transaction: '' @ Error ce) ce)) s
         = matches (Some ce) s
     \<and> isInfrastructureKind (Some (WrapError (''failed to commit transaction: '' @ Error ce) ce))
         = isInfrastructureKind (Some ce)
     \<and> (\<not> matches_any (Some ce) (domain_sentinels @ auth_sentinels) \<longrightarrow>
          classifyError (Some (WrapError (''failed to commit transaction: '' @ Error ce) ce))
            = (500, ''INTERNAL_ERROR'', ''An internal error occurred''))"
proof (intro impI, elim conjE)
  assume b: "Begin lib ctx = Inr t"
    and f: "fn (WithValue ctx txKey (TxValue t)) = FnReturns r None"
    and c: "Commit lib t ctx = Some ce"
  let ?w = "WrapError (''failed to commit transaction: '' @ Error ce) ce"
  have w: "?w = Errorf_w ''failed to commit transaction: '' ce"
    by (simp add: Errorf_w_def)
  have 1: "snd (WithTransaction lib ctx fn) = Returns (AnyNil, Some ?w)"
    using b f c by (simp add: WithTransaction_commit_failed [where fn = fn] Errorf_w_def)
  have 2: "matches (Some ?w) s = matches (Some ce) s"
    by (rule matches_WrapError)
  have 3: "isInfrastructureKind (Some ?w) = isInfrastructureKind (Some ce)"
    unfolding isInfrastructureKind_def w by (rule matches_any_Errorf_w)
  have 4: "\<not> matches_any (Some ce) (domain_sentinels @ auth_sentinels) \<longrightarrow>
          classifyError (Some ?w) = (500, ''INTERNAL_ERROR'', ''An internal error occurred'')"
    unfolding w using classifyError_unmatched [of "Some (Errorf_w ''failed to commit transaction: '' ce)"]
    by (simp add: matches_any_Errorf_w internal_triple_def)
  from 1 2 3 4 show "snd (WithTransaction lib ctx fn) = Returns (AnyNil, Some ?w)
     \<and> matches (Some ?w) s = matches (Some ce) s
     \<and> isInfrastructureKind (Some ?w) = isInfrastructureKind (Some ce)
     \<and> (\<not> matches_any (Some ce) (domain_sentinels @ auth_sentinels) \<longrightarrow>
          classifyError (Some ?w) = (500, ''INTERNAL_ERROR'', ''An internal error occurred''))"
    by blast
qed

theorem WithTransaction_commit_failure_witness:
  "snd (WithTransaction (const_pgx (Inr 7) (Some (Foreign ''conn reset'')) None) Background
         (const_fn (FnReturns (OtherValue ''ok'') None))) =
     Returns (AnyNil, Some (WrapError ''failed to commit transaction: conn reset'' (Foreign ''conn reset'')))
   \<and> classifyError (Some (WrapError ''failed to commit transaction: conn reset'' (Foreign ''conn reset'')))
       = (500, ''INTERNAL_ERROR'', ''An internal error occurred'')"
  using WithTransaction_commit_failure [of "const_pgx (Inr 7) (Some (Foreign ''conn reset'')) None"
      Background 7 "const_fn (FnReturns (OtherValue ''ok'') None)" "OtherValue ''ok''"
      "Foreign ''conn reset''" Database]
  by (simp add: const_pgx_def const_fn_def matches_any_def matches_def domain_sentinels_def
      auth_sentinels_def)

section \<open>The transaction in the context\<close>

text \<open>
  C9. \<open>GetTx\<close> is a total function into \<open>tx option\<close>. On the context that
  \<open>WithTransaction\<close> derives it returns the handle stored under the key: every context
  the unit of work is called with yields the handle that begin returned, and a unit of
  work that returns what \<open>GetTx\<close> reads makes \<open>WithTransaction\<close> return that handle. On
  a context whose value under the key is nil (nothing stored) or is not a transaction,
  \<open>GetTx\<close> returns nil.
\<close>

theorem GetTx_roundtrip:
  "GetTx (WithValue ctx txKey (TxValue t)) = Some t
   \<and> (Begin lib ctx = Inr t \<and> CallEv c \<in> set (fst (WithTransaction lib ctx fn)) \<longrightarrow>
        GetTx c = Some t)
   \<and> (Begin lib ctx = Inr t \<and> Commit lib t ctx = None \<longrightarrow>
        snd (WithTransaction lib ctx fn_reads_tx) = Returns (TxValue t, None))
   \<and> (Value ctx' txKey = AnyNil \<or> Value ctx' txKey = OtherValue v \<longrightarrow> GetTx ctx' = None)"
proof -
  have 1: "GetTx (WithValue ctx txKey (TxValue t)) = Some t"
    by (simp add: GetTx_def)
  have 2: "Begin lib ctx = Inr t \<and> CallEv c \<in> set (fst (WithTransaction lib ctx fn)) \<longrightarrow>
        GetTx c = Some t"
  proof (intro impI, elim conjE)
    assume b: "Begin lib ctx = Inr t" and m: "CallEv c \<in> set (fst (WithTransaction lib ctx fn))"
    from b m have "c = WithValue ctx txKey (TxValue t)" by (rule WithTransaction_calls)
    with 1 show "GetTx c = Some t" by simp
  qed
  have 3: "Begin lib ctx = Inr t \<and> Commit lib t ctx = None \<longrightarrow>
        snd (WithTransaction lib ctx fn_reads_tx) = Returns (TxValue t, None)"
    by (simp add: WithTransaction_commit_ok [where fn = fn_reads_tx and r = "TxValue t"]
        fn_reads_tx_def 1)
  have 4: "Value ctx' txKey = AnyNil \<or> Value ctx' txKey = OtherValue v \<longrightarrow> GetTx ctx' = None"
    by (auto simp: GetTx_def)
  from 1 2 3 4 show ?thesis by blast
qed

theorem GetTx_roundtrip_witness:
  "snd (WithTransaction (const_pgx (Inr 7) None None) Background fn_reads_tx)
     = Returns (TxValue 7, None)
   \<and> GetTx (WithValue Background (otherKey ''tx'') (TxValue 3)) = None
   \<and> GetTx (WithValue Background txKey (OtherValue ''not a tx'')) = None
   \<and> GetTx (WithValue (WithValue Background txKey AnyNil) (otherKey ''user'') (OtherValue ''u1'')) = None"
  using GetTx_roundtrip [of Background 7 "const_pgx (Inr 7) None None"
      "WithValue Background txKey (TxValue 7)" fn_reads_tx
      "WithValue Background (otherKey ''tx'') (TxValue 3)" "''x''"]
    GetTx_roundtrip [of Background 7 "const_pgx (Inr 7) None None"
      "WithValue Background txKey (TxValue 7)" fn_reads_tx
      "WithValue Background txKey (OtherValue ''not a tx'')" "''not a tx''"]
    GetTx_roundtrip [of Background 7 "const_pgx (Inr 7) None None"
      "WithValue Background txKey (TxValue 7)" fn_reads_tx
      "WithValue (WithValue Background txKey AnyNil) (otherKey ''user'') (OtherValue ''u1'')" "''x''"]
  by (simp add: const_pgx_def txKey_def)

section \<open>The pool: all or nothing\<close>

text \<open>The result of \<open>NewPostgresPool\<close> along each of its four paths.\<close>

lemma NewPostgresPool_parse_failed:
  "ParseConfig lib (GetDatabaseURL cfg) = Inl e \<Longrightarrow>
   NewPostgresPool lib ctx cfg h =
     (Returns (None, Some (Errorf_w ''unable to parse database config: '' e)), h)"
  by (simp add: NewPostgresPool_def)

lemma NewPostgresPool_construction_failed:
  "ParseConfig lib (GetDatabaseURL cfg) = Inr pc \<Longrightarrow>
   NewWithConfig_result lib (setPoolConfiguration cfg pc) = Some e \<Longrightarrow>
   NewPostgresPool lib ctx cfg h =
     (Returns (None, Some (Errorf_w ''unable to create connection pool: '' e)), h)"
  by (simp add: NewPostgresPool_def NewWithConfig_def)

lemma NewPostgresPool_ping_failed:
  "ParseConfig lib (GetDatabaseURL cfg) = Inr pc \<Longrightarrow>
   NewWithConfig_result lib (setPoolConfiguration cfg pc) = None \<Longrightarrow>
   Ping lib ctx = Some e \<Longrightarrow>
   NewPostgresPool lib ctx cfg h =
     (Returns (None, Some (Errorf_w ''unable to ping database: '' e)),
      h @ [\<lparr>pconfig = setPoolConfiguration cfg pc, closed = True\<rparr>])"
  by (simp add: NewPostgresPool_def NewWithConfig_def Pool_Ping_def Pool_Close_def)

lemma NewPostgresPool_ok:
  "ParseConfig lib (GetDatabaseURL cfg) = Inr pc \<Longrightarrow>
   NewWithConfig_result lib (setPoolConfiguration cfg pc) = None \<Longrightarrow>
   Ping lib ctx = None \<Longrightarrow>
   NewPostgresPool lib ctx cfg h =
     (Returns (Some (length h), None),
      h @ [\<lparr>pconfig = setPoolConfiguration cfg pc, closed = False\<rparr>])"
  by (simp add: NewPostgresPool_def NewWithConfig_def Pool_Ping_def)

lemma NewPostgresPool_cases:
  "(\<exists>e. ParseConfig lib (GetDatabaseURL cfg) = Inl e
       \<and> NewPostgresPool lib ctx cfg h =
           (Returns (None, Some (Errorf_w ''unable to parse database config: '' e)), h))
   \<or> (\<exists>pc e. ParseConfig lib (GetDatabaseURL cfg) = Inr pc
       \<and> NewWithConfig_result lib (setPoolConfiguration cfg pc) = Some e
       \<and> NewPostgresPool lib ctx cfg h =
           (Returns (None, Some (Errorf_w ''unable to create connection pool: '' e)), h))
   \<or> (\<exists>pc e. ParseConfig lib (GetDatabaseURL cfg) = Inr pc
       \<and> NewWithConfig_result lib (setPoolConfiguration cfg pc) = None
       \<and> Ping lib ctx = Some e
       \<and> NewPostgresPool lib ctx cfg h =
           (Returns (None, Some (Errorf_w ''unable to ping database: '' e)),
            h @ [\<lparr>pconfig = setPoolConfiguration cfg pc, closed = True\<rparr>]))
   \<or> (\<exists>pc. ParseConfig lib (GetDatabaseURL cfg) = Inr pc
       \<and> NewWithConfig_result lib (setPoolConfiguration cfg pc) = None
       \<and> Ping lib ctx = None
       \<and> NewPostgresPool lib ctx cfg h =
           (Returns (Some (length h), None),
            h @ [\<lparr>pconfig = setPoolConfiguration cfg pc, closed = False\<rparr>]))"
proof (cases "ParseConfig lib (GetDatabaseURL cfg)")
  case (Inl e)
  then show ?thesis using NewPostgresPool_parse_failed by blast
next
  case (Inr pc)
  show ?thesis
  proof (cases "NewWithConfig_result lib (setPoolConfiguration cfg pc)")
    case (Some e)
    with Inr show ?thesis using NewPostgresPool_construction_failed by blast
  next
    case None
    show ?thesis
    proof (cases "Ping lib ctx")
      case (Some e)
      with Inr \<open>NewWithConfig_result lib (setPoolConfiguration cfg pc) = None\<close>
      show ?thesis using NewPostgresPool_ping_failed by blast
    next
      case ping_ok: None
      with Inr None show ?thesis using NewPostgresPool_ok by blast
    qed
  qed
qed

text \<open>
  C6, as stated, fails: when the ping fails with a plain driver error,
  \<open>NewPostgresPool\<close> closes the pool and returns a nil pool, but the error it returns
  matches none of the infrastructure sentinels.
\<close>

theorem NewPostgresPool_counterexample:
  "NewPostgresPool (const_pgxpool None None (Some (Foreign ''connection refused'')))
       Background example_db_config [] =
     (Returns (None, Some (WrapError ''unable to ping database: connection refused''
                             (Foreign ''connection refused''))),
      [\<lparr>pconfig = setPoolConfiguration example_db_config
                    (default_pool_config (GetDatabaseURL example_db_config)),
        closed = True\<rparr>])
   \<and> \<not> isInfrastructureKind
         (Some (WrapError ''unable to ping database: connection refused''
                  (Foreign ''connection refused'')))"
  by (simp add: NewPostgresPool_def NewWithConfig_def Pool_Ping_def Pool_Close_def
      const_pgxpool_def Errorf_w_def isInfrastructureKind_def matches_any_def matches_def
      infrastructure_sentinels_def)

text \<open>
  C6, amended. For every configuration, \<open>NewPostgresPool\<close> returns (it does not panic).
  If parsing fails, or the construction fails, it returns a nil pool and the error of the
  failing step wrapped under the prefix of that step, and the heap holds no new pool. If
  the ping fails, it closes the pool it constructed and returns a nil pool and the ping
  error wrapped. A non-nil pool is returned only with a nil error, only when the ping has
  succeeded, and it is the new pool, open. The pool is nil exactly when the error is not.
  The error returned carries no sentinel of its own: it is of the infrastructure kind only
  if the error of the failing step already is. When the error of the failing step matches
  no domain and no auth sentinel, \<open>classifyError\<close> gives the wrapper the status 500 with
  the code \<^verbatim>\<open>INTERNAL_ERROR\<close> and the fixed message.
\<close>

theorem NewPostgresPool_all_or_nothing:
  "(ParseConfig lib (GetDatabaseURL cfg) = Inl e \<longrightarrow>
      NewPostgresPool lib ctx cfg h =
        (Returns (None, Some (Errorf_w ''unable to parse database config: '' e)), h))
   \<and> (ParseConfig lib (GetDatabaseURL cfg) = Inr pc
        \<and> NewWithConfig_result lib (setPoolConfiguration cfg pc) = Some e \<longrightarrow>
      NewPostgresPool lib ctx cfg h =
        (Returns (None, Some (Errorf_w ''unable to create connection pool: '' e)), h))
   \<and> (ParseConfig lib (GetDatabaseURL cfg) = Inr pc
        \<and> NewWithConfig_result lib (setPoolConfiguration cfg pc) = None
        \<and> Ping lib ctx = Some e \<longrightarrow>
      NewPostgresPool lib ctx cfg h =
        (Returns (None, Some (Errorf_w ''unable to ping database: '' e)),
         h @ [\<lparr>pconfig = setPoolConfiguration cfg pc, closed = True\<rparr>]))
   \<and> (fst (NewPostgresPool lib ctx cfg h) = Returns (Some a, err) \<longrightarrow>
        err = None \<and> Ping lib ctx = None \<and> a = length h
        \<and> length (snd (NewPostgresPool lib ctx cfg h)) = Suc a
        \<and> \<not> closed (snd (NewPostgresPool lib ctx cfg h) ! a))
   \<and> (\<exists>pool err'. fst (NewPostgresPool lib ctx cfg h) = Returns (pool, err')
        \<and> (pool = None) = (err' \<noteq> None))
   \<and> isInfrastructureKind (Some (Errorf_w prefix e)) = isInfrastructureKind (Some e)
   \<and> (\<not> matches_any (Some e) (domain_sentinels @ auth_sentinels) \<longrightarrow>
        classifyError (Some (Errorf_w prefix e))
          = (500, ''INTERNAL_ERROR'', ''An internal error occurred''))"
proof -
  have 7: "\<not> matches_any (Some e) (domain_sentinels @ auth_sentinels) \<longrightarrow>
        classifyError (Some (Errorf_w prefix e))
          = (500, ''INTERNAL_ERROR'', ''An internal error occurred'')"
    using classifyError_unmatched [of "Some (Errorf_w prefix e)"]
    by (simp add: matches_any_Errorf_w internal_triple_def)
  have 4: "fst (NewPostgresPool lib ctx cfg h) = Returns (Some a, err) \<longrightarrow>
        err = None \<and> Ping lib ctx = None \<and> a = length h
        \<and> length (snd (NewPostgresPool lib ctx cfg h)) = Suc a
        \<and> \<not> closed (snd (NewPostgresPool lib ctx cfg h) ! a)"
    using NewPostgresPool_cases [of lib cfg ctx h] by auto
  have 5: "\<exists>pool err'. fst (NewPostgresPool lib ctx cfg h) = Returns (pool, err')
        \<and> (pool = None) = (err' \<noteq> None)"
    using NewPostgresPool_cases [of lib cfg ctx h] by auto
  have 6: "isInfrastructureKind (Some (Errorf_w prefix e)) = isInfrastructureKind (Some e)"
    unfolding isInfrastructureKind_def by (rule matches_any_Errorf_w)
  from 4 5 6 7 show ?thesis
    using NewPostgresPool_parse_failed NewPostgresPool_construction_failed
      NewPostgresPool_ping_failed by blast
qed

theorem NewPostgresPool_all_or_nothing_witness:
  "NewPostgresPool (const_pgxpool (Some (Foreign ''bad dsn'')) None None)
       Background example_db_config [] =
     (Returns (None, Some (WrapError ''unable to parse database config: bad dsn'' (Foreign ''bad dsn''))), [])
   \<and> NewPostgresPool (const_pgxpool None (Some (Foreign ''too many clients'')) None)
       Background example_db_config [] =
     (Returns (None, Some (WrapError ''unable to create connection pool: too many clients''
                             (Foreign ''too many clients''))), [])
   \<and> fst (NewPostgresPool (const_pgxpool None None (Some (Foreign ''connection refused'')))
            Background example_db_config []) =
       Returns (None, Some (WrapError ''unable to ping database: connection refused''
                              (Foreign ''connection refused'')))
   \<and> fst (NewPostgresPool (const_pgxpool None None None) Background example_db_config [])
       = Returns (Some 0, None)
   \<and> classifyError (Some (WrapError ''unable to ping database: connection refused''
                              (Foreign ''connection refused'')))
       = (500, ''INTERNAL_ERROR'', ''An internal error occurred'')"
  using NewPostgresPool_all_or_nothing [of "const_pgxpool (Some (Foreign ''bad dsn'')) None None"
      example_db_config "Foreign ''bad dsn''" Background "[]"
      "default_pool_config (GetDatabaseURL example_db_config)" 0 None "''x''"]
    NewPostgresPool_all_or_nothing [of "const_pgxpool None (Some (Foreign ''too many clients'')) None"
      example_db_config "Foreign ''too many clients''" Background "[]"
      "default_pool_config (GetDatabaseURL example_db_config)" 0 None "''x''"]
    NewPostgresPool_all_or_nothing [of "const_pgxpool None None (Some (Foreign ''connection refused''))"
      example_db_config "Foreign ''connection refused''" Background "[]"
      "default_pool_config (GetDatabaseURL example_db_config)" 0 None "''x''"]
    NewPostgresPool_all_or_nothing [of "const_pgxpool None None None"
      example_db_config "Foreign ''bad dsn''" Background "[]"
      "default_pool_config (GetDatabaseURL example_db_config)" 0 None "''x''"]
  by (simp add: const_pgxpool_def Errorf_w_def NewPostgresPool_def NewWithConfig_def Pool_Ping_def
      Pool_Close_def)

section \<open>Closing the pool\<close>

lemma Close_nil: "Close None h = Returns h"
  by (simp add: Close_def)

lemma Close_returns: "\<exists>h1. Close pool h = Returns h1 \<and> Close pool h1 = Returns h1"
proof (cases pool)
  case None
  then show ?thesis by (simp add: Close_def)
next
  case (Some a)
  show ?thesis
  proof (cases "a < length h")
    case True
    with Some show ?thesis by (simp add: Close_def Pool_Close_def)
  next
    case False
    with Some show ?thesis by (simp add: Close_def Pool_Close_def list_update_beyond)
  qed
qed

text \<open>
  C7. \<open>Close\<close> on the nil pool returns without a panic and leaves the heap as it was.
  On any pool, \<open>Close\<close> returns, and a second \<open>Close\<close> on the same pool returns too and
  changes nothing more. For every configuration (valid or not) and every behaviour of the
  library, \<open>NewPostgresPool\<close> returns and \<open>Close\<close> on the pool it returned (nil when it
  failed) returns, once and twice.
\<close>

theorem Close_idempotent_nil_safe:
  "Close None h = Returns h
   \<and> (\<exists>h1. Close pool h = Returns h1 \<and> Close pool h1 = Returns h1)
   \<and> (\<exists>pool' err h1 h2. NewPostgresPool lib ctx cfg h = (Returns (pool', err), h1)
         \<and> Close pool' h1 = Returns h2 \<and> Close pool' h2 = Returns h2)"
proof -
  obtain pool' err where r: "fst (NewPostgresPool lib ctx cfg h) = Returns (pool', err)"
    using NewPostgresPool_cases [of lib cfg ctx h] by auto
  obtain h2 where "Close pool' (snd (NewPostgresPool lib ctx cfg h)) = Returns h2"
    and "Close pool' h2 = Returns h2"
    using Close_returns by blast
  with r have "\<exists>pool' err h1 h2. NewPostgresPool lib ctx cfg h = (Returns (pool', err), h1)
         \<and> Close pool' h1 = Returns h2 \<and> Close pool' h2 = Returns h2"
    by (metis prod.collapse)
  with Close_nil Close_returns show ?thesis by blast
qed

theorem Close_idempotent_nil_safe_witness:
  "Close None [] = Returns []
   \<and> NewPostgresPool (const_pgxpool None None None) Background example_db_config [] =
       (Returns (Some 0, None),
        [\<lparr>pconfig = setPoolConfiguration example_db_config
                      (default_pool_config (GetDatabaseURL example_db_config)),
          closed = False\<rparr>])
   \<and> Close (Some 0)
        [\<lparr>pconfig = setPoolConfiguration example_db_config
                      (default_pool_config (GetDatabaseURL example_db_config)),
          closed = False\<rparr>] =
       Returns [\<lparr>pconfig = setPoolConfiguration example_db_config
                      (default_pool_config (GetDatabaseURL example_db_config)),
                 closed = True\<rparr>]
   \<and> Close (Some 0)
        [\<lparr>pconfig = setPoolConfiguration example_db_config
                      (default_pool_config (GetDatabaseURL example_db_config)),
          closed = True\<rparr>] =
       Returns [\<lparr>pconfig = setPoolConfiguration example_db_config
                      (default_pool_config (GetDatabaseURL example_db_config)),
                 closed = True\<rparr>]"
  using Close_idempotent_nil_safe [of "[]" "Some 0" "const_pgxpool None None None" Background
      example_db_config]
  by (simp add: Close_def Pool_Close_def NewPostgresPool_def NewWithConfig_def Pool_Ping_def
      const_pgxpool_def)

section \<open>The server: what \<open>Start\<close> returns\<close>

lemma Start_signal_drained:
  "Shutdown lib (shutdownCtx s) = None \<Longrightarrow>
   snd (Start lib s port (ShutdownSignal sig)) =
     ([LogInfo ''shutdown signal received'' [(''signal'', sig)], ShutdownEv (shutdownCtx s),
       LogInfo ''server stopped gracefully'' []], None)"
  by (simp add: Start_def shutdownCtx_def)

lemma Start_signal_forced:
  "Shutdown lib (shutdownCtx s) = Some err \<Longrightarrow>
   snd (Start lib s port (ShutdownSignal sig)) =
     ([LogInfo ''shutdown signal received'' [(''signal'', sig)], ShutdownEv (shutdownCtx s),
       LogError ''graceful shutdown failed'' err, CloseEv],
      (case Server_Close lib of
         Some closeErr \<Rightarrow> Some (Errorf_w ''force close error: '' closeErr)
       | None \<Rightarrow> Some (Errorf_w ''graceful shutdown error: '' err)))"
  by (simp add: Start_def shutdownCtx_def split: option.splits)

lemma Start_server_error:
  "snd (Start lib s port (ServerErrors err)) = ([], Some (Errorf_w ''server error: '' err))"
  by (simp add: Start_def)

text \<open>
  C4. When a signal is received and \<^verbatim>\<open>Shutdown\<close> returns an error (as it does when the
  drain is not over within the shutdown timeout), \<open>Start\<close> calls the forced close. If the
  forced close fails, \<open>Start\<close> returns that failure, wrapped under
  \<^verbatim>\<open>force close error: \<close>; otherwise it returns the error of the drain, wrapped under
  \<^verbatim>\<open>graceful shutdown error: \<close>. In both cases the error returned is not nil.
\<close>

theorem Start_drain_timeout:
  "Shutdown lib (shutdownCtx s) = Some err \<longrightarrow>
     CloseEv \<in> set (fst (snd (Start lib s port (ShutdownSignal sig))))
     \<and> snd (snd (Start lib s port (ShutdownSignal sig))) \<noteq> None
     \<and> (Server_Close lib = Some closeErr \<longrightarrow>
          snd (snd (Start lib s port (ShutdownSignal sig)))
            = Some (Errorf_w ''force close error: '' closeErr)
          \<and> Unwrap (Errorf_w ''force close error: '' closeErr) = Some closeErr)
     \<and> (Server_Close lib = None \<longrightarrow>
          snd (snd (Start lib s port (ShutdownSignal sig)))
            = Some (Errorf_w ''graceful shutdown error: '' err)
          \<and> Unwrap (Errorf_w ''graceful shutdown error: '' err) = Some err)"
  by (auto simp: Start_signal_forced Errorf_w_def split: option.splits)

theorem Start_drain_timeout_witness:
  "snd (Start (const_http (Some DeadlineExceeded) None) example_server 8080 (ShutdownSignal ''terminated''))
     = ([LogInfo ''shutdown signal received'' [(''signal'', ''terminated'')],
         ShutdownEv (WithTimeout Background (30 * Second)),
         LogError ''graceful shutdown failed'' DeadlineExceeded, CloseEv],
        Some (WrapError ''graceful shutdown error: context deadline exceeded'' DeadlineExceeded))
   \<and> snd (snd (Start (const_http (Some DeadlineExceeded) (Some (Foreign ''close tcp: broken'')))
                  example_server 8080 (ShutdownSignal ''terminated'')))
     = Some (WrapError ''force close error: close tcp: broken'' (Foreign ''close tcp: broken''))"
  using Start_drain_timeout [of "const_http (Some DeadlineExceeded) None" example_server
      DeadlineExceeded 8080 "''terminated''" "Foreign ''close tcp: broken''"]
    Start_drain_timeout [of "const_http (Some DeadlineExceeded) (Some (Foreign ''close tcp: broken''))"
      example_server DeadlineExceeded 8080 "''terminated''" "Foreign ''close tcp: broken''"]
  by (simp add: const_http_def example_server_def NewServer_def shutdownCtx_def Start_def
      Errorf_w_def DeadlineExceeded_def)

text \<open>
  C5. When a signal is received and \<^verbatim>\<open>Shutdown\<close> returns nil (the drain is over within
  the timeout), \<open>Start\<close> returns nil and makes no forced close. When the \<^verbatim>\<open>select\<close>
  receives the error of the serve activity first, \<open>Start\<close> returns that error wrapped
  under \<^verbatim>\<open>server error: \<close>.
\<close>

theorem Start_clean_shutdown_or_server_error:
  "(Shutdown lib (shutdownCtx s) = None \<longrightarrow>
      snd (snd (Start lib s port (ShutdownSignal sig))) = None
      \<and> CloseEv \<notin> set (fst (snd (Start lib s port (ShutdownSignal sig)))))
   \<and> snd (snd (Start lib s port (ServerErrors err))) = Some (Errorf_w ''server error: '' err)
   \<and> Unwrap (Errorf_w ''server error: '' err) = Some err
   \<and> Error (Errorf_w ''server error: '' err) = ''server error: '' @ Error err"
  by (simp add: Start_signal_drained Start_server_error Errorf_w_def)

theorem Start_clean_shutdown_or_server_error_witness:
  "snd (Start (const_http None None) example_server 8080 (ShutdownSignal ''interrupt''))
     = ([LogInfo ''shutdown signal received'' [(''signal'', ''interrupt'')],
         ShutdownEv (WithTimeout Background (30 * Second)),
         LogInfo ''server stopped gracefully'' []], None)
   \<and> snd (snd (Start (const_http None None) example_server 8080
                  (ServerErrors (Foreign ''listen tcp :8080: bind: address already in use''))))
     = Some (WrapError ''server error: listen tcp :8080: bind: address already in use''
               (Foreign ''listen tcp :8080: bind: address already in use''))"
  using Start_clean_shutdown_or_server_error [of "const_http None None" example_server 8080
      "''interrupt''" "Foreign ''listen tcp :8080: bind: address already in use''"]
  by (simp add: const_http_def example_server_def NewServer_def shutdownCtx_def Start_def
      Errorf_w_def)

section \<open>The classification of errors\<close>








section \<open>The environment helpers fall back to the default\<close>

lemma Getenv_other: "k' \<noteq> k \<Longrightarrow> Getenv (env(k := x)) k' = Getenv env k'"
  by (simp add: Getenv_def)

lemma getEnvAsInt_default:
  "env key = None \<or> Atoi (Getenv env key) = None \<Longrightarrow> getEnvAsInt env key d = d"
  by (auto simp: getEnvAsInt_def Getenv_def Let_def)

lemma getEnvAsDuration_default:
  "env key = None \<or> pd (Getenv env key) = None \<Longrightarrow> getEnvAsDuration pd env key d = d"
  by (auto simp: getEnvAsDuration_def Getenv_def Let_def)

lemma getEnv_other: "k' \<noteq> k \<Longrightarrow> getEnv (env(k := x)) k' d = getEnv env k' d"
  by (simp add: getEnv_def Getenv_other)

lemma getEnvAsInt_other: "k' \<noteq> k \<Longrightarrow> getEnvAsInt (env(k := x)) k' d = getEnvAsInt env k' d"
  by (simp add: getEnvAsInt_def Getenv_other)

lemma getEnvAsDuration_other:
  "k' \<noteq> k \<Longrightarrow> getEnvAsDuration pd (env(k := x)) k' d = getEnvAsDuration pd env k' d"
  by (simp add: getEnvAsDuration_def Getenv_other)

lemma getEnvAsSlice_other:
  "k' \<noteq> k \<Longrightarrow> getEnvAsSlice ts (env(k := x)) k' d = getEnvAsSlice ts env k' d"
  by (simp add: getEnvAsSlice_def Getenv_other)

lemma getEnvAsInt_malformed:
  "Atoi v = None \<Longrightarrow> getEnvAsInt (env(k \<mapsto> v)) k d = getEnvAsInt (env(k := None)) k d"
  by (simp add: getEnvAsInt_def Getenv_def)

lemma getEnvAsDuration_malformed:
  "pd v = None \<Longrightarrow> getEnvAsDuration pd (env(k \<mapsto> v)) k d = getEnvAsDuration pd (env(k := None)) k d"
  by (simp add: getEnvAsDuration_def Getenv_def)

text \<open>
  \<open>Load\<close> sees the environment only through its reads: two environments that answer
  every read of \<open>Load\<close> alike give the same result.
\<close>

lemma Load_cong:
  assumes s: "\<And>key d. key \<in> set string_keys \<Longrightarrow> getEnv e1 key d = getEnv e2 key d"
    and i: "\<And>key d. key \<in> set int_keys \<Longrightarrow> getEnvAsInt e1 key d = getEnvAsInt e2 key d"
    and t: "\<And>key d. key \<in> set duration_keys \<Longrightarrow>
              getEnvAsDuration pd e1 key d = getEnvAsDuration pd e2 key d"
    and l: "\<And>key d. key \<in> set slice_keys \<Longrightarrow>
              getEnvAsSlice ts e1 key d = getEnvAsSlice ts e2 key d"
  shows "Load pd ts e1 = Load pd ts e2"
  unfolding Load_def
  by (simp add: s i t l string_keys_def int_keys_def duration_keys_def slice_keys_def)

lemma keys_distinct: "distinct (string_keys @ int_keys @ duration_keys @ slice_keys)"
  by (simp add: string_keys_def int_keys_def duration_keys_def slice_keys_def)

lemma int_keys_disjoint:
  "set int_keys \<inter> (set string_keys \<union> set duration_keys \<union> set slice_keys) = {}"
  using keys_distinct by auto

lemma duration_keys_disjoint:
  "set duration_keys \<inter> (set string_keys \<union> set int_keys \<union> set slice_keys) = {}"
  using keys_distinct by auto

lemma Load_int_malformed:
  assumes k: "k \<in> set int_keys" and bad: "Atoi v = None"
  shows "Load pd ts (env(k \<mapsto> v)) = Load pd ts (env(k := None))"
proof (rule Load_cong)
  fix key d
  show "getEnvAsInt (env(k \<mapsto> v)) key d = getEnvAsInt (env(k := None)) key d"
    using bad by (cases "key = k") (simp_all add: getEnvAsInt_malformed getEnvAsInt_other)
next
  fix key d assume "key \<in> set string_keys"
  with k int_keys_disjoint have "key \<noteq> k" by blast
  then show "getEnv (env(k \<mapsto> v)) key d = getEnv (env(k := None)) key d"
    by (simp add: getEnv_other)
next
  fix key d assume "key \<in> set duration_keys"
  with k int_keys_disjoint have "key \<noteq> k" by blast
  then show "getEnvAsDuration pd (env(k \<mapsto> v)) key d = getEnvAsDuration pd (env(k := None)) key d"
    by (simp add: getEnvAsDuration_other)
next
  fix key d assume "key \<in> set slice_keys"
  with k int_keys_disjoint have "key \<noteq> k" by blast
  then show "getEnvAsSlice ts (env(k \<mapsto> v)) key d = getEnvAsSlice ts (env(k := None)) key d"
    by (simp add: getEnvAsSlice_other)
qed

lemma Load_duration_malformed:
  assumes k: "k \<in> set duration_keys" and bad: "pd v = None"
  shows "Load pd ts (env(k \<mapsto> v)) = Load pd ts (env(k := None))"
proof (rule Load_cong)
  fix key d
  show "getEnvAsDuration pd (env(k \<mapsto> v)) key d = getEnvAsDuration pd (env(k := None)) key d"
    using bad by (cases "key = k") (simp_all add: getEnvAsDuration_malformed getEnvAsDuration_other)
next
  fix key d assume "key \<in> set string_keys"
  with k duration_keys_disjoint have "key \<noteq> k" by blast
  then show "getEnv (env(k \<mapsto> v)) key d = getEnv (env(k := None)) key d"
    by (simp add: getEnv_other)
next
  fix key d assume "key \<in> set int_keys"
  with k duration_keys_disjoint have "key \<noteq> k" by blast
  then show "getEnvAsInt (env(k \<mapsto> v)) key d = getEnvAsInt (env(k := None)) key d"
    by (simp add: getEnvAsInt_other)
next
  fix key d assume "key \<in> set slice_keys"
  with k duration_keys_disjoint have "key \<noteq> k" by blast
  then show "getEnvAsSlice ts (env(k \<mapsto> v)) key d = getEnvAsSlice ts (env(k := None)) key d"
    by (simp add: getEnvAsSlice_other)
qed

lemma Atoi_80a: "Atoi ''80a'' = None"
  by (simp add: Atoi_def is_digit_def)

text \<open>
  C10. \<open>getEnvAsInt\<close> and \<open>getEnvAsDuration\<close> return a plain value and no error. When
  the variable is unset, or its value does not parse, they return the default they were
  given. So for a name that \<open>Load\<close> reads as an integer (or as a duration), \<open>Load\<close>
  returns the same configuration and the same error for an environment where the name
  holds a value that does not parse as for the environment where the name is unset.
\<close>

theorem getEnv_malformed_is_default:
  "(env key = None \<or> Atoi (Getenv env key) = None \<longrightarrow> getEnvAsInt env key d = d)
   \<and> (env key = None \<or> pd (Getenv env key) = None \<longrightarrow> getEnvAsDuration pd env key dd = dd)
   \<and> (k \<in> set int_keys \<and> Atoi v = None \<longrightarrow>
        Load pd ts (env(k \<mapsto> v)) = Load pd ts (env(k := None)))
   \<and> (k \<in> set duration_keys \<and> pd v = None \<longrightarrow>
        Load pd ts (env(k \<mapsto> v)) = Load pd ts (env(k := None)))"
proof (intro conjI impI)
  assume "env key = None \<or> Atoi (Getenv env key) = None"
  then show "getEnvAsInt env key d = d" by (rule getEnvAsInt_default)
next
  assume "env key = None \<or> pd (Getenv env key) = None"
  then show "getEnvAsDuration pd env key dd = dd" by (rule getEnvAsDuration_default)
next
  assume "k \<in> set int_keys \<and> Atoi v = None"
  then show "Load pd ts (env(k \<mapsto> v)) = Load pd ts (env(k := None))"
    by (simp add: Load_int_malformed)
next
  assume "k \<in> set duration_keys \<and> pd v = None"
  then show "Load pd ts (env(k \<mapsto> v)) = Load pd ts (env(k := None))"
    by (simp add: Load_duration_malformed)
qed

theorem getEnv_malformed_is_default_witness:
  "getEnvAsInt (example_env(''APP_PORT'' \<mapsto> ''80a'')) ''APP_PORT'' 8080 = 8080
   \<and> getEnvAsInt example_env ''APP_PORT'' 8080 = 8080
   \<and> getEnvAsDuration example_parseDuration
        (example_env(''SERVER_SHUTDOWN_TIMEOUT'' \<mapsto> ''thirty'')) ''SERVER_SHUTDOWN_TIMEOUT''
        (30 * Second) = 30 * Second
   \<and> Load example_parseDuration example_trimSpace (example_env(''APP_PORT'' \<mapsto> ''80a''))
       = Load example_parseDuration example_trimSpace (example_env(''APP_PORT'' := None))
   \<and> Load example_parseDuration example_trimSpace
         (example_env(''SERVER_SHUTDOWN_TIMEOUT'' \<mapsto> ''thirty''))
       = Load example_parseDuration example_trimSpace
           (example_env(''SERVER_SHUTDOWN_TIMEOUT'' := None))"
  using getEnv_malformed_is_default [where env = "example_env(''APP_PORT'' \<mapsto> ''80a'')"
      and key = "''APP_PORT''" and d = 8080 and pd = example_parseDuration and ts = example_trimSpace
      and k = "''APP_PORT''" and v = "''80a''" and dd = 0]
    getEnv_malformed_is_default [where env = example_env
      and key = "''APP_PORT''" and d = 8080 and pd = example_parseDuration and ts = example_trimSpace
      and k = "''SERVER_SHUTDOWN_TIMEOUT''" and v = "''thirty''" and dd = 0]
    getEnv_malformed_is_default [where env = "example_env(''SERVER_SHUTDOWN_TIMEOUT'' \<mapsto> ''thirty'')"
      and key = "''SERVER_SHUTDOWN_TIMEOUT''" and d = 0 and pd = example_parseDuration
      and ts = example_trimSpace
      and k = "''SERVER_SHUTDOWN_TIMEOUT''" and v = "''thirty''" and dd = "30 * Second"]
  by (simp add: Atoi_80a example_parseDuration_def example_env_def Getenv_def int_keys_def
      duration_keys_def)

end
